theory Spec2Isabelle
  imports Complex_Main
begin

section \<open>The crypto data fetcher (priceworm-dashboard.py)\<close>

text \<open>
  A shallow embedding of the class \<open>CryptoDataFetcher\<close>. Conventions of the model:
  \<^item> a Python \<open>float\<close> is an exact \<open>real\<close>: the arithmetic of the source is read as
    arithmetic on the decimals it denotes, so rounding error, infinities and NaN are
    outside the model; float division by zero raises, as it does in Python;
  \<^item> the dictionaries keyed by \<open>'bitcoin'\<close> and \<open>'ethereum'\<close> always hold exactly these
    two keys, so they are total functions on the type \<open>crypto\<close>;
  \<^item> an exception is a value of the type \<open>py_error\<close>, a function that can raise returns
    \<open>py_error + 'a\<close>;
  \<^item> the two JSON files are write-only for the code modelled here: the state keeps, for
    each file, the list of values that the save functions were called with.
\<close>

subsection \<open>Data model\<close>

type_synonym pyfloat = real

datatype crypto = Bitcoin | Ethereum

datatype py_error = ZeroDivisionError

text \<open>A \<open>datetime\<close>; its ISO rendering is not modelled, a timestamp is the datetime itself.\<close>

record datetime =
  year :: nat
  month :: nat
  day :: nat
  hour :: nat
  minute :: nat
  second :: nat
  microsecond :: nat

record PriceData =
  price :: pyfloat
  change_24h :: pyfloat
  volume :: pyfloat
  market_cap :: pyfloat
  timestamp :: datetime

record FundingData =
  binance :: "pyfloat option"
  bybit :: "pyfloat option"
  okx :: "pyfloat option"
  average :: "pyfloat option"

text \<open>
  The fields \<open>price\<close>, \<open>value\<close> and \<open>time\<close> of the source's \<open>LiquidationEvent\<close> carry
  the prefix \<open>liq_\<close> here; \<open>liq_time\<close> is the event time in milliseconds as the provider
  sends it (the source renders it as a clock string).
\<close>

record LiquidationEvent =
  symbol :: string
  side :: string
  quantity :: pyfloat
  liq_price :: pyfloat
  liq_value :: pyfloat
  liq_time :: int
  exchange :: string

text \<open>The dictionary \<open>reference_643am\<close>: keys \<open>bitcoin\<close>, \<open>ethereum\<close>, \<open>timestamp\<close>.\<close>

record reference =
  ref_bitcoin :: "pyfloat option"
  ref_ethereum :: "pyfloat option"
  ref_timestamp :: "datetime option"

record MarketData =
  md_bitcoin :: PriceData
  md_ethereum :: PriceData
  md_funding_rates :: "crypto \<Rightarrow> FundingData"
  md_liquidations :: "crypto \<Rightarrow> LiquidationEvent list"
  md_sentiment_score :: int
  md_reference_643am :: reference
  md_timestamp :: datetime

text \<open>
  The state of a \<open>CryptoDataFetcher\<close>, together with the calls made so far to
  \<open>save_reference_prices\<close> and \<open>save_data_to_json\<close> (oldest first).
\<close>

record fetcher =
  reference_643am :: reference
  recent_liquidations :: "crypto \<Rightarrow> LiquidationEvent list"
  reference_saves :: "reference list"
  market_saves :: "MarketData list"

text \<open>The constructor, before \<open>load_reference_prices\<close> runs.\<close>

definition init_fetcher :: fetcher where
  "init_fetcher =
     \<lparr>reference_643am = \<lparr>ref_bitcoin = None, ref_ethereum = None, ref_timestamp = None\<rparr>,
      recent_liquidations = (\<lambda>_. []),
      reference_saves = [],
      market_saves = []\<rparr>"

subsection \<open>Liquidation stream\<close>

definition crypto_map :: "string \<Rightarrow> crypto option" where
  "crypto_map s =
     (if s = ''BTCUSDT'' then Some Bitcoin
      else if s = ''ETHUSDT'' then Some Ethereum
      else None)"

text \<open>The slice \<open>xs[-20:]\<close>.\<close>

definition last_20 :: "'a list \<Rightarrow> 'a list" where
  "last_20 xs = drop (length xs - 20) xs"

definition process_liquidation :: "LiquidationEvent \<Rightarrow> fetcher \<Rightarrow> fetcher" where
  "process_liquidation liquidation self =
     (case crypto_map (symbol liquidation) of
        None \<Rightarrow> self
      | Some c \<Rightarrow>
          (let appended = recent_liquidations self c @ [liquidation];
               kept = (if length appended > 20 then last_20 appended else appended)
           in self\<lparr>recent_liquidations := (recent_liquidations self)(c := kept)\<rparr>))"

text \<open>
  One message of the stream, after \<open>json.loads\<close>: not JSON at all, JSON without the key
  \<open>o\<close>, an order whose fields are missing or do not parse (any other exception of the
  handler), or an order with its fields \<open>s\<close>, \<open>S\<close>, \<open>q\<close>, \<open>p\<close>, \<open>T\<close>.
\<close>

datatype message =
  NotJson
| NoOrder
| BadOrder
| Order string string pyfloat pyfloat int

definition make_liquidation :: "string \<Rightarrow> string \<Rightarrow> pyfloat \<Rightarrow> pyfloat \<Rightarrow> int \<Rightarrow> LiquidationEvent" where
  "make_liquidation s S q p T =
     \<lparr>symbol = s, side = S, quantity = q, liq_price = p, liq_value = q * p,
      liq_time = T, exchange = ''Binance''\<rparr>"

text \<open>The body of the \<open>async for\<close> loop of \<open>setup_liquidation_websocket\<close>.\<close>

fun on_message :: "message \<Rightarrow> fetcher \<Rightarrow> fetcher" where
  "on_message NotJson self = self"
| "on_message NoOrder self = self"
| "on_message BadOrder self = self"
| "on_message (Order s S q p T) self =
     (let liquidation = make_liquidation s S q p T
      in if liq_value liquidation > 100000 then process_liquidation liquidation self else self)"

text \<open>
  The loop itself, on the messages received so far (the stream has no end; every state the
  loop reaches is the result on a finite prefix).
\<close>

fun setup_liquidation_websocket :: "message list \<Rightarrow> fetcher \<Rightarrow> fetcher" where
  "setup_liquidation_websocket [] self = self"
| "setup_liquidation_websocket (m # ms) self = setup_liquidation_websocket ms (on_message m self)"

text \<open>The bound on both histories.\<close>

definition histories_bounded :: "fetcher \<Rightarrow> bool" where
  "histories_bounded self =
     (length (recent_liquidations self Bitcoin) \<le> 20
      \<and> length (recent_liquidations self Ethereum) \<le> 20)"

subsection \<open>Reference price\<close>

definition save_reference_prices :: "fetcher \<Rightarrow> fetcher" where
  "save_reference_prices self =
     self\<lparr>reference_saves := reference_saves self @ [reference_643am self]\<rparr>"

text \<open>\<open>est_time\<close> is the local wall-clock time read by the function.\<close>

definition capture_643am_price :: "datetime \<Rightarrow> (crypto \<Rightarrow> PriceData) \<Rightarrow> fetcher \<Rightarrow> fetcher" where
  "capture_643am_price est_time price_data self =
     (if hour est_time = 6 \<and> minute est_time = 43
      then save_reference_prices
             (self\<lparr>reference_643am :=
                \<lparr>ref_bitcoin = Some (price (price_data Bitcoin)),
                 ref_ethereum = Some (price (price_data Ethereum)),
                 ref_timestamp = Some est_time\<rparr>\<rparr>)
      else self)"

definition ref_get :: "reference \<Rightarrow> crypto \<Rightarrow> pyfloat option" where
  "ref_get r c = (case c of Bitcoin \<Rightarrow> ref_bitcoin r | Ethereum \<Rightarrow> ref_ethereum r)"

definition calculate_change_from_643am :: "fetcher \<Rightarrow> pyfloat \<Rightarrow> crypto \<Rightarrow> py_error + pyfloat option" where
  "calculate_change_from_643am self current_price c =
     (case ref_get (reference_643am self) c of
        None \<Rightarrow> Inr None
      | Some ref_price \<Rightarrow>
          if ref_price = 0 then Inl ZeroDivisionError
          else Inr (Some (((current_price - ref_price) / ref_price) * 100)))"

subsection \<open>Sentiment score\<close>

text \<open>Python's \<open>round\<close> of a float: to the nearest integer, a tie to the even one.\<close>

definition py_round :: "pyfloat \<Rightarrow> int" where
  "py_round x =
     (let f = \<lfloor>x\<rfloor>; d = x - of_int f
      in if d < 1 / 2 then f
         else if d > 1 / 2 then f + 1
         else if even f then f else f + 1)"

text \<open>The liquidation part of the score (the first block of the function).\<close>

definition long_liqs :: "LiquidationEvent list \<Rightarrow> nat" where
  "long_liqs btc_liqs = length (filter (\<lambda>liq. side liq = ''SELL'') btc_liqs)"

definition short_liqs :: "LiquidationEvent list \<Rightarrow> nat" where
  "short_liqs btc_liqs = length (filter (\<lambda>liq. side liq = ''BUY'') btc_liqs)"

definition liquidation_component :: "LiquidationEvent list \<Rightarrow> pyfloat" where
  "liquidation_component btc_liqs =
     (if btc_liqs \<noteq> [] then
        (if long_liqs btc_liqs + short_liqs btc_liqs > 0
         then (real (short_liqs btc_liqs) / real (long_liqs btc_liqs + short_liqs btc_liqs) - 0.5) * 60
         else 0)
      else 0)"

text \<open>The funding part: \<open>x or 0\<close> reads an absent average as 0.\<close>

definition or_0 :: "pyfloat option \<Rightarrow> pyfloat" where
  "or_0 a = (case a of None \<Rightarrow> 0 | Some x \<Rightarrow> x)"

definition avg_funding :: "(crypto \<Rightarrow> FundingData) \<Rightarrow> pyfloat" where
  "avg_funding funding_data =
     (let btc_funding = or_0 (average (funding_data Bitcoin));
          eth_funding = or_0 (average (funding_data Ethereum))
      in (btc_funding + eth_funding) / 2)"

definition funding_component :: "(crypto \<Rightarrow> FundingData) \<Rightarrow> pyfloat" where
  "funding_component funding_data =
     (if avg_funding funding_data > 0.02 then - 25
      else if avg_funding funding_data < 0.01 then 25
      else (0.015 - avg_funding funding_data) * 1250)"

text \<open>The momentum part and the part of the change since the reference price.\<close>

definition momentum_component :: "(crypto \<Rightarrow> PriceData) \<Rightarrow> pyfloat" where
  "momentum_component price_data =
     (let btc_momentum = (if change_24h (price_data Bitcoin) > 0 then 12.5 else - 12.5);
          eth_momentum = (if change_24h (price_data Ethereum) > 0 then 12.5 else - 12.5)
      in btc_momentum + eth_momentum)"

definition reference_component :: "pyfloat option \<Rightarrow> pyfloat option \<Rightarrow> pyfloat" where
  "reference_component btc_643_change eth_643_change =
     (case (btc_643_change, eth_643_change) of
        (Some b, Some e) \<Rightarrow> (let avg_643_change = (b + e) / 2 in if avg_643_change > 0 then 20 else - 20)
      | _ \<Rightarrow> 0)"

definition calculate_sentiment_score ::
    "fetcher \<Rightarrow> (crypto \<Rightarrow> PriceData) \<Rightarrow> (crypto \<Rightarrow> FundingData) \<Rightarrow> py_error + int" where
  "calculate_sentiment_score self price_data funding_data =
     (let btc_liqs = recent_liquidations self Bitcoin;
          eth_liqs = recent_liquidations self Ethereum;
          score = 0 + liquidation_component btc_liqs;
          score = score + funding_component funding_data;
          score = score + momentum_component price_data
      in case calculate_change_from_643am self (price (price_data Bitcoin)) Bitcoin of
           Inl e \<Rightarrow> Inl e
         | Inr btc_643_change \<Rightarrow>
             (case calculate_change_from_643am self (price (price_data Ethereum)) Ethereum of
                Inl e \<Rightarrow> Inl e
              | Inr eth_643_change \<Rightarrow>
                  Inr (py_round (score + reference_component btc_643_change eth_643_change))))"

subsection \<open>Providers\<close>

text \<open>
  What CoinGecko answers for one coin. The whole answer is \<open>None\<close> when the request, the
  decoding or the reading of a field raises.
\<close>

record quote =
  usd :: pyfloat
  usd_24h_change :: pyfloat
  usd_24h_vol :: pyfloat
  usd_market_cap :: pyfloat

definition get_price_data :: "datetime \<Rightarrow> (crypto \<Rightarrow> quote) option \<Rightarrow> (crypto \<Rightarrow> PriceData) option" where
  "get_price_data now response =
     (case response of
        None \<Rightarrow> None
      | Some data \<Rightarrow>
          Some (\<lambda>c. \<lparr>price = usd (data c), change_24h = usd_24h_change (data c),
                      volume = usd_24h_vol (data c), market_cap = usd_market_cap (data c),
                      timestamp = now\<rparr>))"

text \<open>
  One funding-rate request: it raises (the request, the decoding, a missing key or an
  unreadable number), it answers with nothing to read (an empty list, no \<open>result\<close>), or it
  answers with a rate.
\<close>

datatype reply = Raises | Nothing | Rate pyfloat

text \<open>
  The funding sources of one poll: the HTTP session cannot be used at all (the outer
  \<open>try\<close> of the function), or the four requests get their replies, in the order
  Binance BTC, Binance ETH, Bybit BTC, Bybit ETH.
\<close>

datatype funding_source = SessionError | Session reply reply reply reply

definition set_binance :: "crypto \<Rightarrow> reply \<Rightarrow> (crypto \<Rightarrow> FundingData) \<Rightarrow> (crypto \<Rightarrow> FundingData)" where
  "set_binance c r funding_data =
     (case r of Rate x \<Rightarrow> funding_data(c := (funding_data c)\<lparr>binance := Some x\<rparr>) | _ \<Rightarrow> funding_data)"

definition set_bybit :: "crypto \<Rightarrow> reply \<Rightarrow> (crypto \<Rightarrow> FundingData) \<Rightarrow> (crypto \<Rightarrow> FundingData)" where
  "set_bybit c r funding_data =
     (case r of Rate x \<Rightarrow> funding_data(c := (funding_data c)\<lparr>bybit := Some x\<rparr>) | _ \<Rightarrow> funding_data)"

text \<open>The two inner \<open>try\<close> blocks: a request that raises ends its block.\<close>

definition binance_block :: "reply \<Rightarrow> reply \<Rightarrow> (crypto \<Rightarrow> FundingData) \<Rightarrow> (crypto \<Rightarrow> FundingData)" where
  "binance_block btc eth funding_data =
     (if btc = Raises then funding_data
      else set_binance Ethereum eth (set_binance Bitcoin btc funding_data))"

definition bybit_block :: "reply \<Rightarrow> reply \<Rightarrow> (crypto \<Rightarrow> FundingData) \<Rightarrow> (crypto \<Rightarrow> FundingData)" where
  "bybit_block btc eth funding_data =
     (if btc = Raises then funding_data
      else set_bybit Ethereum eth (set_bybit Bitcoin btc funding_data))"

text \<open>The body of the loop that calculates the averages, for one entry.\<close>

definition calculate_average :: "FundingData \<Rightarrow> FundingData" where
  "calculate_average f =
     (let rates = [binance f, bybit f];
          valid_rates = List.map_filter (\<lambda>r. r) rates
      in if valid_rates \<noteq> []
         then f\<lparr>average := Some (sum_list valid_rates / real (length valid_rates))\<rparr>
         else f)"

definition empty_funding :: FundingData where
  "empty_funding = \<lparr>binance = None, bybit = None, okx = None, average = None\<rparr>"

definition get_funding_rates :: "funding_source \<Rightarrow> (crypto \<Rightarrow> FundingData) option" where
  "get_funding_rates src =
     (case src of
        SessionError \<Rightarrow> None
      | Session binance_btc binance_eth bybit_btc bybit_eth \<Rightarrow>
          (let funding_data = (\<lambda>_. empty_funding);
               funding_data = binance_block binance_btc binance_eth funding_data;
               funding_data = bybit_block bybit_btc bybit_eth funding_data
           in Some (\<lambda>c. calculate_average (funding_data c))))"

subsection \<open>The poll\<close>

definition save_data_to_json :: "MarketData \<Rightarrow> fetcher \<Rightarrow> fetcher" where
  "save_data_to_json data self = self\<lparr>market_saves := market_saves self @ [data]\<rparr>"

text \<open>
  The environment of one poll: the three clock readings (UTC for the price data, local
  wall-clock time for the capture, UTC for the snapshot) and what the providers answer.
\<close>

record poll_env =
  price_clock :: datetime
  local_clock :: datetime
  snapshot_clock :: datetime
  coingecko :: "(crypto \<Rightarrow> quote) option"
  funding_source :: funding_source

text \<open>
  \<open>fetch_all_data\<close> returns the fetcher as the call leaves it and either the exception that
  escapes or the function's result, \<open>None\<close> or a snapshot.
\<close>

definition fetch_all_data :: "poll_env \<Rightarrow> fetcher \<Rightarrow> fetcher \<times> (py_error + MarketData option)" where
  "fetch_all_data env self =
     (let price_data = get_price_data (price_clock env) (coingecko env);
          funding_data = get_funding_rates (funding_source env)
      in case (price_data, funding_data) of
           (Some pd, Some fd) \<Rightarrow>
             (let self = capture_643am_price (local_clock env) pd self
              in case calculate_sentiment_score self pd fd of
                   Inl e \<Rightarrow> (self, Inl e)
                 | Inr sentiment_score \<Rightarrow>
                     (self, Inr (Some
                        \<lparr>md_bitcoin = pd Bitcoin,
                         md_ethereum = pd Ethereum,
                         md_funding_rates = fd,
                         md_liquidations = recent_liquidations self,
                         md_sentiment_score = sentiment_score,
                         md_reference_643am = reference_643am self,
                         md_timestamp = snapshot_clock env\<rparr>)))
         | _ \<Rightarrow> (self, Inr None))"

text \<open>One iteration of the loop \<open>scheduled_fetch\<close>, up to its sleep.\<close>

definition scheduled_fetch :: "poll_env \<Rightarrow> fetcher \<Rightarrow> fetcher" where
  "scheduled_fetch env self =
     (case fetch_all_data env self of
        (self, Inr (Some data)) \<Rightarrow> save_data_to_json data self
      | (self, _) \<Rightarrow> self)"

subsection \<open>The average as the specification words it\<close>



subsection \<open>Concrete inputs\<close>

definition clock_at :: "nat \<Rightarrow> nat \<Rightarrow> nat \<Rightarrow> datetime" where
  "clock_at h m s =
     \<lparr>year = 2024, month = 5, day = 17, hour = h, minute = m, second = s, microsecond = 0\<rparr>"

definition example_quotes :: "crypto \<Rightarrow> quote" where
  "example_quotes c =
     (case c of
        Bitcoin \<Rightarrow> \<lparr>usd = 60000, usd_24h_change = 2, usd_24h_vol = 1000, usd_market_cap = 5000\<rparr>
      | Ethereum \<Rightarrow> \<lparr>usd = 3000, usd_24h_change = - 1, usd_24h_vol = 400, usd_market_cap = 900\<rparr>)"

definition example_price_data :: "crypto \<Rightarrow> PriceData" where
  "example_price_data c =
     (case c of
        Bitcoin \<Rightarrow> \<lparr>price = 60000, change_24h = 2, volume = 1000, market_cap = 5000,
                    timestamp = clock_at 12 0 0\<rparr>
      | Ethereum \<Rightarrow> \<lparr>price = 3000, change_24h = - 1, volume = 400, market_cap = 900,
                    timestamp = clock_at 12 0 0\<rparr>)"

definition example_funding_data :: "crypto \<Rightarrow> FundingData" where
  "example_funding_data c =
     (case c of
        Bitcoin \<Rightarrow> \<lparr>binance = Some 0.005, bybit = None, okx = None, average = Some 0.005\<rparr>
      | Ethereum \<Rightarrow> \<lparr>binance = Some 0.03, bybit = None, okx = None, average = Some 0.03\<rparr>)"

text \<open>A poll whose price request fails while every funding request answers.\<close>

definition env_price_fails :: poll_env where
  "env_price_fails =
     \<lparr>price_clock = clock_at 12 0 0, local_clock = clock_at 8 0 0, snapshot_clock = clock_at 12 0 1,
      coingecko = None,
      funding_source = Session (Rate 0.005) (Rate 0.03) (Rate 0.005) (Rate 0.03)\<rparr>"

text \<open>A poll whose price request answers while every funding request raises.\<close>

definition env_exchanges_fail :: poll_env where
  "env_exchanges_fail =
     \<lparr>price_clock = clock_at 12 0 0, local_clock = clock_at 8 0 0, snapshot_clock = clock_at 12 0 1,
      coingecko = Some example_quotes,
      funding_source = Session Raises Raises Raises Raises\<rparr>"

text \<open>Twenty stored bitcoin liquidations, all different, and a further one.\<close>

definition example_history :: "LiquidationEvent list" where
  "example_history =
     map (\<lambda>i. make_liquidation ''BTCUSDT'' (if even i then ''SELL'' else ''BUY'') 3 (50000 + real i) (int i))
       [0..<20]"

definition short_liquidated :: LiquidationEvent where
  "short_liquidated = make_liquidation ''BTCUSDT'' ''BUY'' 4 60000 99"

definition long_liquidated :: LiquidationEvent where
  "long_liquidated = make_liquidation ''BTCUSDT'' ''SELL'' 5 70000 7"

definition full_fetcher :: fetcher where
  "full_fetcher = init_fetcher\<lparr>recent_liquidations := (\<lambda>_. [])(Bitcoin := example_history)\<rparr>"

text \<open>Prices as CoinGecko would quote them if bitcoin were quoted at 0.\<close>

definition zero_price_data :: "crypto \<Rightarrow> PriceData" where
  "zero_price_data c = (example_price_data c)\<lparr>price := (case c of Bitcoin \<Rightarrow> 0 | Ethereum \<Rightarrow> 3000)\<rparr>"

text \<open>Prices with bitcoin at 50000.\<close>

definition anchor_price_data :: "crypto \<Rightarrow> PriceData" where
  "anchor_price_data c = (example_price_data c)\<lparr>price := (case c of Bitcoin \<Rightarrow> 50000 | Ethereum \<Rightarrow> 2500)\<rparr>"

text \<open>
  A funding poll: Binance answers for bitcoin and has nothing for ethereum, Bybit answers
  for bitcoin and raises at the request for ethereum.
\<close>

definition example_funding_source :: funding_source where
  "example_funding_source = Session (Rate 0.01) Nothing (Rate 0.03) Raises"




section \<open>Properties\<close>

subsection \<open>Rounding\<close>

lemma py_round_cases:
  "py_round x = \<lfloor>x\<rfloor> \<or> (py_round x = \<lfloor>x\<rfloor> + 1 \<and> x \<noteq> of_int \<lfloor>x\<rfloor>)"
  by (auto simp: py_round_def Let_def)

lemma py_round_le: "x \<le> of_int b \<Longrightarrow> py_round x \<le> b"
  using py_round_cases [of x] by (auto simp: le_floor_iff floor_le_iff) linarith

lemma py_round_ge: "of_int a \<le> x \<Longrightarrow> a \<le> py_round x"
  using py_round_cases [of x] by (auto simp: le_floor_iff) linarith+

subsection \<open>The four parts of the score\<close>

lemma liquidation_component_eq:
  "liquidation_component h =
     (if long_liqs h + short_liqs h > 0
      then (real (short_liqs h) / real (long_liqs h + short_liqs h) - 0.5) * 60 else 0)"
  by (cases h) (simp_all add: liquidation_component_def long_liqs_def short_liqs_def)

lemma ratio_bounds:
  fixes s l :: nat
  assumes "0 < l + s"
  shows "0 \<le> real s / real (l + s)" "real s / real (l + s) \<le> 1"
  using assms by (simp_all add: divide_le_eq)

lemma liquidation_component_bounds:
  "- 30 \<le> liquidation_component h \<and> liquidation_component h \<le> 30"
proof (cases "0 < long_liqs h + short_liqs h")
  case True
  have "liquidation_component h = (real (short_liqs h) / real (long_liqs h + short_liqs h) - 0.5) * 60"
    using True by (simp add: liquidation_component_eq)
  moreover define r where "r = real (short_liqs h) / real (long_liqs h + short_liqs h)"
  ultimately have "liquidation_component h = (r - 0.5) * 60" "0 \<le> r" "r \<le> 1"
    using ratio_bounds [OF True] by simp_all
  then show ?thesis by simp
next
  case False
  then show ?thesis by (simp add: liquidation_component_eq)
qed

lemma counts_all_sell:
  assumes "\<forall>liq \<in> set h. side liq = ''SELL''"
  shows "long_liqs h = length h" "short_liqs h = 0"
proof -
  have "filter (\<lambda>liq. side liq = ''SELL'') h = h" using assms by simp
  then show "long_liqs h = length h" by (simp add: long_liqs_def)
  have "filter (\<lambda>liq. side liq = ''BUY'') h = []" using assms by (auto simp: filter_empty_conv)
  then show "short_liqs h = 0" by (simp add: short_liqs_def)
qed

lemma counts_all_buy:
  assumes "\<forall>liq \<in> set h. side liq = ''BUY''"
  shows "short_liqs h = length h" "long_liqs h = 0"
proof -
  have "filter (\<lambda>liq. side liq = ''BUY'') h = h" using assms by simp
  then show "short_liqs h = length h" by (simp add: short_liqs_def)
  have "filter (\<lambda>liq. side liq = ''SELL'') h = []" using assms by (auto simp: filter_empty_conv)
  then show "long_liqs h = 0" by (simp add: long_liqs_def)
qed

lemma funding_component_bounds:
  "- 25 \<le> funding_component fd \<and> funding_component fd \<le> 25"
proof -
  define a where "a = avg_funding fd"
  have "funding_component fd = (if a > 0.02 then - 25 else if a < 0.01 then 25 else (0.015 - a) * 1250)"
    unfolding a_def by (simp only: funding_component_def)
  then show ?thesis by simp
qed

lemma funding_component_interpolation:
  assumes "0.01 \<le> avg_funding fd" "avg_funding fd \<le> 0.02"
  shows "funding_component fd = (0.015 - avg_funding fd) * 1250"
    and "- 6.25 \<le> funding_component fd" and "funding_component fd \<le> 6.25"
proof -
  define a where "a = avg_funding fd"
  have "funding_component fd = (if a > 0.02 then - 25 else if a < 0.01 then 25 else (0.015 - a) * 1250)"
    unfolding a_def by (simp only: funding_component_def)
  with assms [folded a_def]
  show "funding_component fd = (0.015 - avg_funding fd) * 1250"
    and "- 6.25 \<le> funding_component fd" and "funding_component fd \<le> 6.25"
    unfolding a_def [symmetric] by simp_all
qed

lemma momentum_component_values: "momentum_component pd \<in> {- 25, 0, 25}"
  by (simp add: momentum_component_def Let_def)

lemma reference_component_values: "reference_component b e \<in> {- 20, 0, 20}"
  by (simp add: reference_component_def Let_def split: option.splits)

lemma sum_of_parts_bounds:
  "- 100 \<le> 0 + liquidation_component h + funding_component fd + momentum_component pd
             + reference_component b e"
  "0 + liquidation_component h + funding_component fd + momentum_component pd
     + reference_component b e \<le> 100"
  using liquidation_component_bounds [of h] funding_component_bounds [of fd]
    momentum_component_values [of pd] reference_component_values [of b e]
  by auto

text \<open>Which of the two outcomes the score function has, and the value it rounds.\<close>

lemma calculate_sentiment_score_cases:
  "calculate_sentiment_score self pd fd =
    (if ref_bitcoin (reference_643am self) = Some 0 \<or> ref_ethereum (reference_643am self) = Some 0
     then Inl ZeroDivisionError
     else Inr (py_round (0 + liquidation_component (recent_liquidations self Bitcoin)
        + funding_component fd + momentum_component pd
        + reference_component
            (map_option (\<lambda>r. (price (pd Bitcoin) - r) / r * 100)
               (ref_bitcoin (reference_643am self)))
            (map_option (\<lambda>r. (price (pd Ethereum) - r) / r * 100)
               (ref_ethereum (reference_643am self))))))"
  by (auto simp: calculate_sentiment_score_def calculate_change_from_643am_def ref_get_def Let_def
      split: option.splits)

lemma returned_score_bounds:
  assumes "calculate_sentiment_score self pd fd = Inr s"
  shows "- 100 \<le> s" "s \<le> 100"
proof -
  from assms obtain b e where
    s: "s = py_round (0 + liquidation_component (recent_liquidations self Bitcoin)
          + funding_component fd + momentum_component pd + reference_component b e)"
    by (auto simp: calculate_sentiment_score_cases split: if_splits)
  show "- 100 \<le> s" unfolding s by (rule py_round_ge) (use sum_of_parts_bounds(1) in simp)
  show "s \<le> 100" unfolding s by (rule py_round_le) (use sum_of_parts_bounds(2) in simp)
qed

lemma change_ignores_other_fields:
  "reference_643am a = reference_643am b \<Longrightarrow>
   calculate_change_from_643am a p c = calculate_change_from_643am b p c"
  by (simp add: calculate_change_from_643am_def)

subsection \<open>The score on fixed inputs\<close>

text \<open>
  Claim C1. With bitcoin at 60000 and a 24h change of +2, ethereum at 3000 and a 24h change
  of -1, funding averages 0.005 and 0.03, an empty bitcoin liquidation history and no
  reference price captured, \<open>calculate_sentiment_score\<close> returns -3.
\<close>

theorem fixed_inputs_score:
  assumes "price (price_data Bitcoin) = 60000" and "change_24h (price_data Bitcoin) = 2"
    and "price (price_data Ethereum) = 3000" and "change_24h (price_data Ethereum) = - 1"
    and "average (funding_data Bitcoin) = Some 0.005"
    and "average (funding_data Ethereum) = Some 0.03"
    and "recent_liquidations self Bitcoin = []"
    and "ref_bitcoin (reference_643am self) = None"
    and "ref_ethereum (reference_643am self) = None"
  shows "calculate_sentiment_score self price_data funding_data = Inr (- 3)"
  using assms
  by (simp add: calculate_sentiment_score_def calculate_change_from_643am_def ref_get_def
      liquidation_component_def funding_component_def avg_funding_def momentum_component_def
      reference_component_def or_0_def py_round_def Let_def)

theorem fixed_inputs_score_witness:
  "price (example_price_data Bitcoin) = 60000 \<and> change_24h (example_price_data Ethereum) = - 1
   \<and> average (example_funding_data Bitcoin) = Some 0.005
   \<and> average (example_funding_data Ethereum) = Some 0.03
   \<and> recent_liquidations init_fetcher Bitcoin = []
   \<and> calculate_sentiment_score init_fetcher example_price_data example_funding_data = Inr (- 3)"
  using fixed_inputs_score [of example_price_data example_funding_data init_fetcher]
  by (simp add: example_price_data_def example_funding_data_def init_fetcher_def)

subsection \<open>The liquidation skew\<close>

text \<open>
  Claim C7. The liquidation part of the score lies between -30 and +30 for every bitcoin
  liquidation history. When the history holds a long or a short liquidation it is
  \<open>(short / (long + short) - 0.5) * 60\<close>; it is -30 when the history is not empty and all
  its events are long liquidations (side SELL), +30 when all are short liquidations (side
  BUY), 0 when the two counts are equal, and 0 for the empty history.
\<close>

theorem liquidation_skew:
  "- 30 \<le> liquidation_component h \<and> liquidation_component h \<le> 30
   \<and> (0 < long_liqs h + short_liqs h \<longrightarrow>
        liquidation_component h
          = (real (short_liqs h) / real (long_liqs h + short_liqs h) - 0.5) * 60)
   \<and> (h \<noteq> [] \<and> (\<forall>liq \<in> set h. side liq = ''SELL'') \<longrightarrow> liquidation_component h = - 30)
   \<and> (h \<noteq> [] \<and> (\<forall>liq \<in> set h. side liq = ''BUY'') \<longrightarrow> liquidation_component h = 30)
   \<and> (long_liqs h = short_liqs h \<longrightarrow> liquidation_component h = 0)
   \<and> liquidation_component [] = 0"
proof (intro conjI impI)
  show "- 30 \<le> liquidation_component h" "liquidation_component h \<le> 30"
    using liquidation_component_bounds [of h] by simp_all
  show "liquidation_component h
          = (real (short_liqs h) / real (long_liqs h + short_liqs h) - 0.5) * 60"
    if "0 < long_liqs h + short_liqs h"
    using that by (simp add: liquidation_component_eq)
  show "liquidation_component h = - 30" if "h \<noteq> [] \<and> (\<forall>liq \<in> set h. side liq = ''SELL'')"
    using that counts_all_sell [of h] by (simp add: liquidation_component_eq)
  show "liquidation_component h = 30" if "h \<noteq> [] \<and> (\<forall>liq \<in> set h. side liq = ''BUY'')"
    using that counts_all_buy [of h] by (simp add: liquidation_component_eq)
  show "liquidation_component h = 0" if "long_liqs h = short_liqs h"
    using that by (simp add: liquidation_component_eq)
  show "liquidation_component [] = 0"
    by (simp add: liquidation_component_def)
qed


theorem liquidation_skew_witness:
  "liquidation_component [long_liquidated, long_liquidated] = - 30
   \<and> liquidation_component [short_liquidated] = 30
   \<and> liquidation_component [long_liquidated, short_liquidated] = 0
   \<and> liquidation_component [short_liquidated, long_liquidated, short_liquidated] = 10"
  using liquidation_skew [of "[long_liquidated, long_liquidated]"]
    liquidation_skew [of "[short_liquidated]"]
    liquidation_skew [of "[long_liquidated, short_liquidated]"]
    liquidation_skew [of "[short_liquidated, long_liquidated, short_liquidated]"]
  by (simp add: long_liqs_def short_liqs_def long_liquidated_def short_liquidated_def
      make_liquidation_def)

subsection \<open>The range of the score\<close>

text \<open>
  Claim C8. Whatever the price data, the funding data, the liquidation histories and the
  reference prices are, every score that \<open>calculate_sentiment_score\<close> returns is an integer
  between -105 and 105, although the function rounds the sum of its four parts without
  clamping it (\<open>calculate_sentiment_score_cases\<close>). The function returns a score unless a
  captured reference price is 0. When the blended funding average lies between 0.01 and
  0.02 the funding part is the interpolation \<open>(0.015 - avg) * 1250\<close> and stays within -25
  and +25.
\<close>

theorem sentiment_score_bounded:
  "(\<forall>s. calculate_sentiment_score self pd fd = Inr s \<longrightarrow> - 105 \<le> s \<and> s \<le> 105)
   \<and> (ref_bitcoin (reference_643am self) \<noteq> Some 0 \<and> ref_ethereum (reference_643am self) \<noteq> Some 0
        \<longrightarrow> (\<exists>s. calculate_sentiment_score self pd fd = Inr s))
   \<and> (0.01 \<le> avg_funding fd \<and> avg_funding fd \<le> 0.02 \<longrightarrow>
        funding_component fd = (0.015 - avg_funding fd) * 1250
        \<and> - 25 \<le> funding_component fd \<and> funding_component fd \<le> 25)"
proof (intro conjI allI impI)
  fix s
  assume "calculate_sentiment_score self pd fd = Inr s"
  from returned_score_bounds [OF this] show "- 105 \<le> s" "s \<le> 105" by simp_all
next
  assume "ref_bitcoin (reference_643am self) \<noteq> Some 0 \<and> ref_ethereum (reference_643am self) \<noteq> Some 0"
  then show "\<exists>s. calculate_sentiment_score self pd fd = Inr s"
    by (simp add: calculate_sentiment_score_cases)
next
  assume a: "0.01 \<le> avg_funding fd \<and> avg_funding fd \<le> 0.02"
  then show "funding_component fd = (0.015 - avg_funding fd) * 1250"
    by (simp add: funding_component_interpolation(1))
  show "- 25 \<le> funding_component fd" "funding_component fd \<le> 25"
    using funding_component_bounds [of fd] by simp_all
qed

theorem sentiment_score_bounded_witness:
  "avg_funding example_funding_data = 0.0175
   \<and> funding_component example_funding_data = - 3.125
   \<and> calculate_sentiment_score full_fetcher example_price_data example_funding_data = Inr (- 3)
   \<and> - 105 \<le> (- 3 :: int) \<and> (- 3 :: int) \<le> 105"
proof -
  have a: "avg_funding example_funding_data = 0.0175"
    by (simp add: avg_funding_def example_funding_data_def or_0_def)
  have r: "ref_bitcoin (reference_643am full_fetcher) = None"
    "ref_ethereum (reference_643am full_fetcher) = None"
    by (simp_all add: full_fetcher_def init_fetcher_def)
  have l: "long_liqs example_history = 10" "short_liqs example_history = 10"
    by (simp_all add: long_liqs_def short_liqs_def example_history_def make_liquidation_def
        upt_rec [of _ "numeral _"] )
  have h: "recent_liquidations full_fetcher Bitcoin = example_history" "example_history \<noteq> []"
    by (simp_all add: full_fetcher_def example_history_def upt_rec [of 0])
  have f: "funding_component example_funding_data = - 3.125"
    by (simp add: funding_component_def a)
  have "liquidation_component example_history = 0"
    using l h(2) by (simp add: liquidation_component_def)
  then have "calculate_sentiment_score full_fetcher example_price_data example_funding_data = Inr (- 3)"
    using r h(1)
    by (simp add: calculate_sentiment_score_cases f momentum_component_def example_price_data_def
        reference_component_def py_round_def)
  with a f sentiment_score_bounded [of full_fetcher example_price_data example_funding_data]
  show ?thesis by simp
qed

subsection \<open>The ethereum liquidations do not matter\<close>

text \<open>
  Claim C10. Two fetchers that agree on the reference prices and on the bitcoin liquidation
  history get the same score for the same price and funding data, whatever their ethereum
  liquidation histories hold.
\<close>

theorem score_ignores_ethereum_liquidations:
  assumes "reference_643am a = reference_643am b"
    and "recent_liquidations a Bitcoin = recent_liquidations b Bitcoin"
  shows "calculate_sentiment_score a price_data funding_data
         = calculate_sentiment_score b price_data funding_data"
  using assms change_ignores_other_fields [OF assms(1)]
  by (simp add: calculate_sentiment_score_def Let_def cong: sum.case_cong)

theorem score_ignores_ethereum_liquidations_witness:
  "recent_liquidations full_fetcher Ethereum = []
   \<and> recent_liquidations (full_fetcher\<lparr>recent_liquidations :=
        (recent_liquidations full_fetcher)(Ethereum := [short_liquidated])\<rparr>) Ethereum
       = [short_liquidated]
   \<and> calculate_sentiment_score
       (full_fetcher\<lparr>recent_liquidations :=
          (recent_liquidations full_fetcher)(Ethereum := [short_liquidated])\<rparr>)
       example_price_data example_funding_data
     = calculate_sentiment_score full_fetcher example_price_data example_funding_data"
  using score_ignores_ethereum_liquidations
    [of "full_fetcher\<lparr>recent_liquidations :=
          (recent_liquidations full_fetcher)(Ethereum := [short_liquidated])\<rparr>" full_fetcher
        example_price_data example_funding_data]
  by (simp add: full_fetcher_def init_fetcher_def)


subsection \<open>Capturing the reference price\<close>

text \<open>
  Claim C6. When the local wall-clock time has hour 6 and minute 43, whatever its seconds,
  \<open>capture_643am_price\<close> overwrites the reference with the current bitcoin and ethereum
  prices and the time of the capture and saves it at once; at every other time it leaves
  the fetcher as it is and saves nothing.
\<close>

theorem capture_exactly_at_643:
  "(hour t = 6 \<and> minute t = 43 \<longrightarrow>
      reference_643am (capture_643am_price t pd self)
        = \<lparr>ref_bitcoin = Some (price (pd Bitcoin)), ref_ethereum = Some (price (pd Ethereum)),
           ref_timestamp = Some t\<rparr>
      \<and> reference_saves (capture_643am_price t pd self)
        = reference_saves self @ [reference_643am (capture_643am_price t pd self)]
      \<and> recent_liquidations (capture_643am_price t pd self) = recent_liquidations self
      \<and> market_saves (capture_643am_price t pd self) = market_saves self)
   \<and> (\<not> (hour t = 6 \<and> minute t = 43) \<longrightarrow> capture_643am_price t pd self = self)"
  by (simp add: capture_643am_price_def save_reference_prices_def)

theorem capture_exactly_at_643_witness:
  "reference_643am (capture_643am_price (clock_at 6 43 0) example_price_data init_fetcher)
     = \<lparr>ref_bitcoin = Some 60000, ref_ethereum = Some 3000, ref_timestamp = Some (clock_at 6 43 0)\<rparr>
   \<and> reference_saves (capture_643am_price (clock_at 6 43 59) example_price_data init_fetcher)
     = [\<lparr>ref_bitcoin = Some 60000, ref_ethereum = Some 3000,
         ref_timestamp = Some (clock_at 6 43 59)\<rparr>]
   \<and> capture_643am_price (clock_at 6 42 59) example_price_data init_fetcher = init_fetcher
   \<and> capture_643am_price (clock_at 6 44 0) example_price_data init_fetcher = init_fetcher
   \<and> capture_643am_price (clock_at 18 43 0) example_price_data init_fetcher = init_fetcher"
  using capture_exactly_at_643 [of "clock_at 6 43 0" example_price_data init_fetcher]
    capture_exactly_at_643 [of "clock_at 6 43 59" example_price_data init_fetcher]
    capture_exactly_at_643 [of "clock_at 6 42 59" example_price_data init_fetcher]
    capture_exactly_at_643 [of "clock_at 6 44 0" example_price_data init_fetcher]
    capture_exactly_at_643 [of "clock_at 18 43 0" example_price_data init_fetcher]
  by (simp add: clock_at_def example_price_data_def init_fetcher_def)

subsection \<open>The change since the reference price\<close>

text \<open>
  Claim C9, as the specification states it, fails: a reference price of 0, captured from a
  bitcoin quote of 0, makes \<open>calculate_change_from_643am\<close> raise instead of return.
\<close>

theorem zero_reference_raises:
  "ref_get (reference_643am (capture_643am_price (clock_at 6 43 0) zero_price_data init_fetcher))
     Bitcoin = Some 0
   \<and> calculate_change_from_643am
       (capture_643am_price (clock_at 6 43 0) zero_price_data init_fetcher) 55000 Bitcoin
     = Inl ZeroDivisionError"
  by (simp add: calculate_change_from_643am_def capture_643am_price_def save_reference_prices_def
      ref_get_def clock_at_def zero_price_data_def)

text \<open>
  Claim C9, amended. \<open>calculate_change_from_643am\<close> returns \<open>None\<close> for an instrument without
  a captured reference price; for a captured reference price other than 0 it returns
  \<open>(current - reference) / reference * 100\<close>; for a captured reference price of 0 it raises
  \<open>ZeroDivisionError\<close>. After a capture of bitcoin at 50000, a current price of 55000 gives
  the change 10.
\<close>

theorem change_from_reference:
  "(ref_get (reference_643am self) c = None \<longrightarrow>
      calculate_change_from_643am self current_price c = Inr None)
   \<and> (\<forall>r. ref_get (reference_643am self) c = Some r \<and> r \<noteq> 0 \<longrightarrow>
        calculate_change_from_643am self current_price c
          = Inr (Some ((current_price - r) / r * 100)))
   \<and> (ref_get (reference_643am self) c = Some 0 \<longrightarrow>
        calculate_change_from_643am self current_price c = Inl ZeroDivisionError)
   \<and> (hour t = 6 \<and> minute t = 43 \<and> price (pd Bitcoin) = 50000 \<longrightarrow>
        calculate_change_from_643am (capture_643am_price t pd self) 55000 Bitcoin
          = Inr (Some 10))"
  by (simp add: calculate_change_from_643am_def capture_643am_price_def save_reference_prices_def
      ref_get_def)

theorem change_from_reference_witness:
  "calculate_change_from_643am init_fetcher 55000 Bitcoin = Inr None
   \<and> calculate_change_from_643am
       (capture_643am_price (clock_at 6 43 0) anchor_price_data init_fetcher) 55000 Bitcoin
     = Inr (Some 10)
   \<and> calculate_change_from_643am
       (capture_643am_price (clock_at 6 43 0) anchor_price_data init_fetcher) 2000 Ethereum
     = Inr (Some (- 20))
   \<and> calculate_change_from_643am
       (capture_643am_price (clock_at 6 43 0) zero_price_data init_fetcher) 1 Bitcoin
     = Inl ZeroDivisionError"
  using change_from_reference [of init_fetcher Bitcoin 55000]
    change_from_reference [of init_fetcher Bitcoin 55000 "clock_at 6 43 0" anchor_price_data]
    change_from_reference
      [of "capture_643am_price (clock_at 6 43 0) anchor_price_data init_fetcher" Ethereum 2000]
    change_from_reference
      [of "capture_643am_price (clock_at 6 43 0) zero_price_data init_fetcher" Bitcoin 1]
  by (simp add: capture_643am_price_def save_reference_prices_def ref_get_def clock_at_def
      anchor_price_data_def zero_price_data_def example_price_data_def init_fetcher_def)


subsection \<open>Liquidation histories\<close>

lemma crypto_map_Some_iff:
  "crypto_map s = Some c \<longleftrightarrow> (s = ''BTCUSDT'' \<and> c = Bitcoin) \<or> (s = ''ETHUSDT'' \<and> c = Ethereum)"
  by (auto simp: crypto_map_def)

lemma crypto_map_None_iff: "crypto_map s = None \<longleftrightarrow> s \<noteq> ''BTCUSDT'' \<and> s \<noteq> ''ETHUSDT''"
  by (simp add: crypto_map_def)

lemma process_liquidation_history:
  assumes "crypto_map (symbol ev) = Some c"
  shows "recent_liquidations (process_liquidation ev self) c
         = (if length (recent_liquidations self c) < 20 then recent_liquidations self c @ [ev]
            else drop (length (recent_liquidations self c) - 19) (recent_liquidations self c) @ [ev])"
    and "c' \<noteq> c \<Longrightarrow> recent_liquidations (process_liquidation ev self) c' = recent_liquidations self c'"
    and "reference_643am (process_liquidation ev self) = reference_643am self"
    and "reference_saves (process_liquidation ev self) = reference_saves self"
    and "market_saves (process_liquidation ev self) = market_saves self"
  using assms by (auto simp: process_liquidation_def last_20_def Let_def)

lemma process_liquidation_unknown:
  "crypto_map (symbol ev) = None \<Longrightarrow> process_liquidation ev self = self"
  by (simp add: process_liquidation_def)

lemma process_liquidation_length:
  "length (recent_liquidations (process_liquidation ev self) c)
   \<le> max 20 (length (recent_liquidations self c))"
  by (cases "crypto_map (symbol ev)")
     (auto simp: process_liquidation_def last_20_def Let_def)

lemma process_liquidation_bounded:
  "histories_bounded self \<Longrightarrow> histories_bounded (process_liquidation ev self)"
  using process_liquidation_length [of ev self Bitcoin]
    process_liquidation_length [of ev self Ethereum]
  by (simp add: histories_bounded_def)

lemma on_message_bounded: "histories_bounded self \<Longrightarrow> histories_bounded (on_message m self)"
  by (cases m) (simp_all add: Let_def process_liquidation_bounded)

lemma stream_bounded:
  "histories_bounded self \<Longrightarrow> histories_bounded (setup_liquidation_websocket ms self)"
  by (induction ms arbitrary: self) (simp_all add: on_message_bounded)

text \<open>
  Claim C4. A recorded liquidation keeps both histories within 20 entries when they were
  within 20 before, and so does every run of the stream from a new fetcher. Recording into
  a history of fewer than 20 entries appends the event; recording into a history of 20
  entries, the 21st, drops the oldest entry and keeps the other 19 in their order, followed
  by the event.
\<close>

theorem history_at_most_20:
  "(histories_bounded self \<longrightarrow> histories_bounded (process_liquidation ev self))
   \<and> histories_bounded (setup_liquidation_websocket ms init_fetcher)
   \<and> (crypto_map (symbol ev) = Some c \<and> length (recent_liquidations self c) < 20 \<longrightarrow>
        recent_liquidations (process_liquidation ev self) c = recent_liquidations self c @ [ev])
   \<and> (crypto_map (symbol ev) = Some c \<and> length (recent_liquidations self c) = 20 \<longrightarrow>
        recent_liquidations (process_liquidation ev self) c = tl (recent_liquidations self c) @ [ev]
        \<and> length (recent_liquidations (process_liquidation ev self) c) = 20)"
proof (intro conjI impI)
  show "histories_bounded (process_liquidation ev self)" if "histories_bounded self"
    using that by (rule process_liquidation_bounded)
  have "histories_bounded init_fetcher"
    by (simp add: histories_bounded_def init_fetcher_def)
  then show "histories_bounded (setup_liquidation_websocket ms init_fetcher)"
    by (rule stream_bounded)
  show "recent_liquidations (process_liquidation ev self) c = recent_liquidations self c @ [ev]"
    if "crypto_map (symbol ev) = Some c \<and> length (recent_liquidations self c) < 20"
    using that by (simp add: process_liquidation_history(1))
  show "recent_liquidations (process_liquidation ev self) c = tl (recent_liquidations self c) @ [ev]"
    if "crypto_map (symbol ev) = Some c \<and> length (recent_liquidations self c) = 20"
    using that by (simp add: process_liquidation_history(1) drop_Suc)
  show "length (recent_liquidations (process_liquidation ev self) c) = 20"
    if "crypto_map (symbol ev) = Some c \<and> length (recent_liquidations self c) = 20"
    using that by (simp add: process_liquidation_history(1))
qed

theorem history_at_most_20_witness:
  "histories_bounded full_fetcher
   \<and> length (recent_liquidations full_fetcher Bitcoin) = 20
   \<and> crypto_map (symbol short_liquidated) = Some Bitcoin
   \<and> recent_liquidations (process_liquidation short_liquidated full_fetcher) Bitcoin
     = tl example_history @ [short_liquidated]
   \<and> histories_bounded (process_liquidation short_liquidated full_fetcher)
   \<and> recent_liquidations (process_liquidation short_liquidated init_fetcher) Bitcoin
     = [short_liquidated]"
  using history_at_most_20
      [where self = full_fetcher and ev = short_liquidated and ms = "[]" and c = Bitcoin]
    history_at_most_20
      [where self = init_fetcher and ev = short_liquidated and ms = "[]" and c = Bitcoin]
  by (simp add: histories_bounded_def full_fetcher_def init_fetcher_def example_history_def
      short_liquidated_def make_liquidation_def crypto_map_def)

text \<open>
  Claim C3, as the specification states it, fails: a bitcoin liquidation whose value is
  exactly 100000 is not stored.
\<close>

theorem value_100000_not_stored:
  "liq_value (make_liquidation ''BTCUSDT'' ''SELL'' 2 50000 0) = 100000
   \<and> crypto_map ''BTCUSDT'' = Some Bitcoin
   \<and> on_message (Order ''BTCUSDT'' ''SELL'' 2 50000 0) init_fetcher = init_fetcher
   \<and> recent_liquidations (on_message (Order ''BTCUSDT'' ''SELL'' 2 50000 0) init_fetcher) Bitcoin
     = []"
  by (simp add: make_liquidation_def crypto_map_def init_fetcher_def)

text \<open>
  Claim C3, amended. The stream handler stores a liquidation if and only if its symbol is
  BTCUSDT or ETHUSDT and its value, quantity times price, is greater than 100000: then the
  event becomes the newest entry of the history of its instrument and nothing else
  changes. An order of value 100000 or less, an order with any other symbol and a message
  that is no order leave the fetcher as it is, and the handler goes on with the stream.
\<close>

theorem stored_iff_recognized_and_above_100000:
  "(crypto_map s = Some c \<and> 100000 < q * p \<longrightarrow>
      recent_liquidations (on_message (Order s S q p T) self) c
        = (if length (recent_liquidations self c) < 20
           then recent_liquidations self c @ [make_liquidation s S q p T]
           else drop (length (recent_liquidations self c) - 19) (recent_liquidations self c)
                @ [make_liquidation s S q p T])
      \<and> last (recent_liquidations (on_message (Order s S q p T) self) c)
          = make_liquidation s S q p T
      \<and> (\<forall>c'. c' \<noteq> c \<longrightarrow>
            recent_liquidations (on_message (Order s S q p T) self) c'
              = recent_liquidations self c')
      \<and> reference_643am (on_message (Order s S q p T) self) = reference_643am self)
   \<and> (q * p \<le> 100000 \<or> crypto_map s = None \<longrightarrow> on_message (Order s S q p T) self = self)
   \<and> (crypto_map s = None \<longleftrightarrow> s \<noteq> ''BTCUSDT'' \<and> s \<noteq> ''ETHUSDT'')
   \<and> on_message NotJson self = self \<and> on_message NoOrder self = self
   \<and> on_message BadOrder self = self"
proof -
  have sym: "symbol (make_liquidation s S q p T) = s" "liq_value (make_liquidation s S q p T) = q * p"
    by (simp_all add: make_liquidation_def)
  have handled: "on_message (Order s S q p T) self
      = (if 100000 < q * p then process_liquidation (make_liquidation s S q p T) self else self)"
    by (simp add: Let_def sym)
  have stored: "recent_liquidations (on_message (Order s S q p T) self) c
        = (if length (recent_liquidations self c) < 20
           then recent_liquidations self c @ [make_liquidation s S q p T]
           else drop (length (recent_liquidations self c) - 19) (recent_liquidations self c)
                @ [make_liquidation s S q p T])"
      "\<forall>c'. c' \<noteq> c \<longrightarrow>
            recent_liquidations (on_message (Order s S q p T) self) c'
              = recent_liquidations self c'"
      "reference_643am (on_message (Order s S q p T) self) = reference_643am self"
    if "crypto_map s = Some c \<and> 100000 < q * p"
    using that process_liquidation_history
      [where ev = "make_liquidation s S q p T" and c = c and self = self]
    by (simp_all add: handled sym)
  have kept: "on_message (Order s S q p T) self = self" if "q * p \<le> 100000 \<or> crypto_map s = None"
    using that by (auto simp: handled sym process_liquidation_unknown)
  show ?thesis
  proof (intro conjI impI)
    assume above: "crypto_map s = Some c \<and> 100000 < q * p"
    show "recent_liquidations (on_message (Order s S q p T) self) c
        = (if length (recent_liquidations self c) < 20
           then recent_liquidations self c @ [make_liquidation s S q p T]
           else drop (length (recent_liquidations self c) - 19) (recent_liquidations self c)
                @ [make_liquidation s S q p T])"
      by (rule stored(1) [OF above])
    then show "last (recent_liquidations (on_message (Order s S q p T) self) c)
          = make_liquidation s S q p T"
      by (simp only: last_snoc if_distrib [of last] if_cancel)
    show "\<forall>c'. c' \<noteq> c \<longrightarrow>
            recent_liquidations (on_message (Order s S q p T) self) c'
              = recent_liquidations self c'"
      by (rule stored(2) [OF above])
    show "reference_643am (on_message (Order s S q p T) self) = reference_643am self"
      by (rule stored(3) [OF above])
  next
    assume "q * p \<le> 100000 \<or> crypto_map s = None"
    then show "on_message (Order s S q p T) self = self" by (rule kept)
  next
    show "crypto_map s = None \<longleftrightarrow> s \<noteq> ''BTCUSDT'' \<and> s \<noteq> ''ETHUSDT''"
      by (rule crypto_map_None_iff)
  qed simp_all
qed

theorem stored_iff_recognized_and_above_100000_witness:
  "recent_liquidations (on_message (Order ''ETHUSDT'' ''BUY'' 40 2500.01 5) full_fetcher) Ethereum
     = [make_liquidation ''ETHUSDT'' ''BUY'' 40 2500.01 5]
   \<and> recent_liquidations (on_message (Order ''ETHUSDT'' ''BUY'' 40 2500.01 5) full_fetcher) Bitcoin
     = example_history
   \<and> on_message (Order ''ETHUSDT'' ''BUY'' 40 2499.99 5) full_fetcher = full_fetcher
   \<and> on_message (Order ''XRPUSDT'' ''BUY'' 1000000 3 5) full_fetcher = full_fetcher"
  using stored_iff_recognized_and_above_100000
      [where s = "''ETHUSDT''" and c = Ethereum and q = 40 and p = "2500.01" and S = "''BUY''"
         and T = 5 and self = full_fetcher]
    stored_iff_recognized_and_above_100000
      [where s = "''ETHUSDT''" and c = Ethereum and q = 40 and p = "2499.99" and S = "''BUY''"
         and T = 5 and self = full_fetcher]
    stored_iff_recognized_and_above_100000
      [where s = "''XRPUSDT''" and c = Ethereum and q = 1000000 and p = 3 and S = "''BUY''"
         and T = 5 and self = full_fetcher]
  by (simp add: crypto_map_def full_fetcher_def init_fetcher_def)


subsection \<open>Funding rates\<close>








lemma calculate_average_sources:
  "binance (calculate_average f) = binance f" "bybit (calculate_average f) = bybit f"
  "okx (calculate_average f) = okx f"
  by (simp_all add: calculate_average_def Let_def)




subsection \<open>The poll\<close>

lemma get_funding_rates_Session:
  "get_funding_rates (Session a1 a2 b1 b2)
   = Some (\<lambda>c. calculate_average
              (bybit_block b1 b2 (binance_block a1 a2 (\<lambda>_. empty_funding)) c))"
  by (simp add: get_funding_rates_def)

lemma get_funding_rates_None_iff: "get_funding_rates src = None \<longleftrightarrow> src = SessionError"
  by (cases src) (simp_all add: get_funding_rates_def)

lemma get_price_data_None_iff: "get_price_data now response = None \<longleftrightarrow> response = None"
  by (cases response) (simp_all add: get_price_data_def)

lemma get_funding_rates_partial:
  "\<exists>fd. get_funding_rates (Session a1 a2 b1 b2) = Some fd
     \<and> binance (fd Bitcoin) = (case a1 of Rate x \<Rightarrow> Some x | _ \<Rightarrow> None)
     \<and> binance (fd Ethereum)
         = (if a1 = Raises then None else case a2 of Rate x \<Rightarrow> Some x | _ \<Rightarrow> None)
     \<and> bybit (fd Bitcoin) = (case b1 of Rate x \<Rightarrow> Some x | _ \<Rightarrow> None)
     \<and> bybit (fd Ethereum)
         = (if b1 = Raises then None else case b2 of Rate x \<Rightarrow> Some x | _ \<Rightarrow> None)"
  by (simp add: get_funding_rates_Session calculate_average_sources binance_block_def
      bybit_block_def set_binance_def set_bybit_def empty_funding_def split: reply.splits)

lemma all_exchanges_fail:
  "get_funding_rates (Session Raises Raises Raises Raises) = Some (\<lambda>_. empty_funding)"
  by (simp add: get_funding_rates_def binance_block_def bybit_block_def calculate_average_def
      empty_funding_def)

lemma fetch_all_data_skips:
  assumes "coingecko env = None \<or> funding_source env = SessionError"
  shows "fetch_all_data env self = (self, Inr None)"
  using assms
  by (auto simp: fetch_all_data_def get_price_data_def get_funding_rates_def Let_def
      split: option.splits funding_source.splits)

lemma fetch_all_data_snapshot:
  assumes "get_price_data (price_clock env) (coingecko env) = Some pd"
    and "get_funding_rates (funding_source env) = Some fd"
    and "calculate_sentiment_score (capture_643am_price (local_clock env) pd self) pd fd = Inr s"
  shows "fetch_all_data env self =
     (capture_643am_price (local_clock env) pd self,
      Inr (Some \<lparr>md_bitcoin = pd Bitcoin, md_ethereum = pd Ethereum, md_funding_rates = fd,
         md_liquidations = recent_liquidations (capture_643am_price (local_clock env) pd self),
         md_sentiment_score = s,
         md_reference_643am = reference_643am (capture_643am_price (local_clock env) pd self),
         md_timestamp = snapshot_clock env\<rparr>))"
  using assms by (simp add: fetch_all_data_def Let_def)

text \<open>
  Claim C2, as the specification states it, fails: when the price request fails and every
  funding request answers, \<open>fetch_all_data\<close> returns \<open>None\<close> and the iteration of the loop
  saves no snapshot.
\<close>

theorem price_failure_skips_snapshot:
  "coingecko env_price_fails = None
   \<and> get_funding_rates (funding_source env_price_fails) \<noteq> None
   \<and> fetch_all_data env_price_fails init_fetcher = (init_fetcher, Inr None)
   \<and> market_saves (scheduled_fetch env_price_fails init_fetcher) = []"
  by (simp add: scheduled_fetch_def fetch_all_data_def get_price_data_def
      get_funding_rates_Session env_price_fails_def init_fetcher_def)

text \<open>
  Claim C2, amended. A poll builds and saves a snapshot only when \<open>get_price_data\<close> and
  \<open>get_funding_rates\<close> both return data: when the price request fails, or the funding
  session fails as a whole, \<open>fetch_all_data\<close> returns \<open>None\<close> and the iteration saves nothing
  and leaves the fetcher as it is. When both return data and the score is calculated, the
  snapshot is built from them and saved. A partial result exists only inside the funding
  data: whatever the four requests to the exchanges do, the funding data is returned; a
  rate is present exactly when its request answers with a rate (and, for ethereum, the
  request for bitcoin at the same exchange did not raise), so an exchange whose request
  fails leaves its rate absent; when the requests of every exchange fail the funding data
  is still returned, with every rate and average absent.
\<close>

theorem snapshot_needs_price_and_funding:
  "(coingecko env = None \<or> funding_source env = SessionError \<longrightarrow>
      fetch_all_data env self = (self, Inr None) \<and> scheduled_fetch env self = self)
   \<and> (market_saves (scheduled_fetch env self) \<noteq> market_saves self \<longrightarrow>
        coingecko env \<noteq> None \<and> funding_source env \<noteq> SessionError)
   \<and> (get_price_data (price_clock env) (coingecko env) = Some pd
        \<and> get_funding_rates (funding_source env) = Some fd
        \<and> calculate_sentiment_score (capture_643am_price (local_clock env) pd self) pd fd = Inr s
        \<longrightarrow>
        market_saves (scheduled_fetch env self)
          = market_saves self
            @ [\<lparr>md_bitcoin = pd Bitcoin, md_ethereum = pd Ethereum, md_funding_rates = fd,
                md_liquidations = recent_liquidations self,
                md_sentiment_score = s,
                md_reference_643am
                  = reference_643am (capture_643am_price (local_clock env) pd self),
                md_timestamp = snapshot_clock env\<rparr>])
   \<and> (\<exists>rates. get_funding_rates (Session binance_btc binance_eth bybit_btc bybit_eth) = Some rates
        \<and> binance (rates Bitcoin) = (case binance_btc of Rate x \<Rightarrow> Some x | _ \<Rightarrow> None)
        \<and> binance (rates Ethereum)
            = (if binance_btc = Raises then None else case binance_eth of Rate x \<Rightarrow> Some x | _ \<Rightarrow> None)
        \<and> bybit (rates Bitcoin) = (case bybit_btc of Rate x \<Rightarrow> Some x | _ \<Rightarrow> None)
        \<and> bybit (rates Ethereum)
            = (if bybit_btc = Raises then None else case bybit_eth of Rate x \<Rightarrow> Some x | _ \<Rightarrow> None))
   \<and> get_funding_rates (Session Raises Raises Raises Raises) = Some (\<lambda>_. empty_funding)"
proof (intro conjI impI)
  show "\<exists>rates. get_funding_rates (Session binance_btc binance_eth bybit_btc bybit_eth) = Some rates
        \<and> binance (rates Bitcoin) = (case binance_btc of Rate x \<Rightarrow> Some x | _ \<Rightarrow> None)
        \<and> binance (rates Ethereum)
            = (if binance_btc = Raises then None else case binance_eth of Rate x \<Rightarrow> Some x | _ \<Rightarrow> None)
        \<and> bybit (rates Bitcoin) = (case bybit_btc of Rate x \<Rightarrow> Some x | _ \<Rightarrow> None)
        \<and> bybit (rates Ethereum)
            = (if bybit_btc = Raises then None else case bybit_eth of Rate x \<Rightarrow> Some x | _ \<Rightarrow> None)"
    by (rule get_funding_rates_partial)
next
  assume skip: "coingecko env = None \<or> funding_source env = SessionError"
  show "fetch_all_data env self = (self, Inr None)"
    by (rule fetch_all_data_skips [OF skip])
  then show "scheduled_fetch env self = self"
    by (simp add: scheduled_fetch_def)
next
  assume saved: "market_saves (scheduled_fetch env self) \<noteq> market_saves self"
  have unchanged: "scheduled_fetch env self = self"
    if "coingecko env = None \<or> funding_source env = SessionError"
    using fetch_all_data_skips [OF that] by (simp add: scheduled_fetch_def)
  show "coingecko env \<noteq> None"
  proof
    assume "coingecko env = None"
    then have "scheduled_fetch env self = self" by (simp add: unchanged)
    with saved show False by simp
  qed
  show "funding_source env \<noteq> SessionError"
  proof
    assume "funding_source env = SessionError"
    then have "scheduled_fetch env self = self" by (simp add: unchanged)
    with saved show False by simp
  qed
next
  assume "get_price_data (price_clock env) (coingecko env) = Some pd
        \<and> get_funding_rates (funding_source env) = Some fd
        \<and> calculate_sentiment_score (capture_643am_price (local_clock env) pd self) pd fd = Inr s"
  then have "fetch_all_data env self =
     (capture_643am_price (local_clock env) pd self,
      Inr (Some \<lparr>md_bitcoin = pd Bitcoin, md_ethereum = pd Ethereum, md_funding_rates = fd,
         md_liquidations = recent_liquidations (capture_643am_price (local_clock env) pd self),
         md_sentiment_score = s,
         md_reference_643am = reference_643am (capture_643am_price (local_clock env) pd self),
         md_timestamp = snapshot_clock env\<rparr>))"
    by (simp add: fetch_all_data_snapshot)
  then show "market_saves (scheduled_fetch env self)
          = market_saves self
            @ [\<lparr>md_bitcoin = pd Bitcoin, md_ethereum = pd Ethereum, md_funding_rates = fd,
                md_liquidations = recent_liquidations self,
                md_sentiment_score = s,
                md_reference_643am
                  = reference_643am (capture_643am_price (local_clock env) pd self),
                md_timestamp = snapshot_clock env\<rparr>]"
    by (simp add: scheduled_fetch_def save_data_to_json_def capture_643am_price_def
        save_reference_prices_def)
next
  show "get_funding_rates (Session Raises Raises Raises Raises) = Some (\<lambda>_. empty_funding)"
    by (rule all_exchanges_fail)
qed

theorem snapshot_needs_price_and_funding_witness:
  "scheduled_fetch env_price_fails full_fetcher = full_fetcher
   \<and> map md_sentiment_score (market_saves (scheduled_fetch env_exchanges_fail init_fetcher)) = [25]
   \<and> map md_bitcoin (market_saves (scheduled_fetch env_exchanges_fail init_fetcher))
     = [example_price_data Bitcoin]
   \<and> map (\<lambda>data. md_funding_rates data Bitcoin)
       (market_saves (scheduled_fetch env_exchanges_fail init_fetcher)) = [empty_funding]
   \<and> map_option (\<lambda>rates. binance (rates Bitcoin)) (get_funding_rates example_funding_source)
     = Some (Some 0.01)
   \<and> map_option (\<lambda>rates. bybit (rates Ethereum)) (get_funding_rates example_funding_source)
     = Some None"
proof -
  define pd where "pd = (\<lambda>c. \<lparr>price = usd (example_quotes c),
     change_24h = usd_24h_change (example_quotes c), volume = usd_24h_vol (example_quotes c),
     market_cap = usd_market_cap (example_quotes c), timestamp = clock_at 12 0 0\<rparr>)"
  have p: "get_price_data (price_clock env_exchanges_fail) (coingecko env_exchanges_fail) = Some pd"
    by (simp add: get_price_data_def env_exchanges_fail_def pd_def)
  have f: "get_funding_rates (funding_source env_exchanges_fail) = Some (\<lambda>_. empty_funding)"
    by (simp add: env_exchanges_fail_def all_exchanges_fail)
  have c: "capture_643am_price (local_clock env_exchanges_fail) pd init_fetcher = init_fetcher"
    by (simp add: capture_643am_price_def env_exchanges_fail_def clock_at_def)
  have s: "calculate_sentiment_score init_fetcher pd (\<lambda>_. empty_funding) = Inr 25"
    by (simp add: calculate_sentiment_score_cases init_fetcher_def liquidation_component_def
        funding_component_def avg_funding_def or_0_def empty_funding_def momentum_component_def
        reference_component_def py_round_def pd_def example_quotes_def)
  have b: "pd Bitcoin = example_price_data Bitcoin"
    by (simp add: pd_def example_price_data_def example_quotes_def)
  from snapshot_needs_price_and_funding
    [where env = env_price_fails and self = full_fetcher]
  have "scheduled_fetch env_price_fails full_fetcher = full_fetcher"
    by (simp add: env_price_fails_def)
  moreover from snapshot_needs_price_and_funding
    [where env = env_exchanges_fail and self = init_fetcher and pd = pd
       and fd = "\<lambda>_. empty_funding" and s = 25] p f c s
  have "market_saves (scheduled_fetch env_exchanges_fail init_fetcher)
      = [\<lparr>md_bitcoin = pd Bitcoin, md_ethereum = pd Ethereum,
          md_funding_rates = (\<lambda>_. empty_funding),
          md_liquidations = recent_liquidations init_fetcher,
          md_sentiment_score = 25,
          md_reference_643am = reference_643am init_fetcher,
          md_timestamp = snapshot_clock env_exchanges_fail\<rparr>]"
    by (simp add: init_fetcher_def)
  moreover from snapshot_needs_price_and_funding
    [where binance_btc = "Rate 0.01" and binance_eth = Nothing and bybit_btc = "Rate 0.03"
       and bybit_eth = Raises, THEN conjunct2, THEN conjunct2, THEN conjunct2, THEN conjunct1]
  have "map_option (\<lambda>rates. binance (rates Bitcoin)) (get_funding_rates example_funding_source)
      = Some (Some 0.01)
    \<and> map_option (\<lambda>rates. bybit (rates Ethereum)) (get_funding_rates example_funding_source)
      = Some None"
    by (auto simp: example_funding_source_def)
  ultimately show ?thesis by (simp add: b)
qed

end
